theory Spec2Isabelle
  imports Complex_Main "HOL-Library.List_Lexorder"
begin

section \<open>Python text\<close>

text \<open>
  A Python \<open>str\<close> is a sequence of Unicode code points, so it is modelled as a list of
  natural numbers: \<open>len\<close> is \<open>length\<close>, and the bullet U+2022 that
  \<open>extract_suggested_actions\<close> looks for is the single element \<open>8226\<close>.
  Literals of the source are written \<open>py ''...''\<close>.

  Case mapping (\<open>str.lower\<close>), the digit class of \<open>re\<close> and the syntax of \<open>int()\<close>
  are modelled on the ASCII repertoire: a code point outside ASCII is taken to have no case
  and not to be a digit. The whitespace of \<open>str.strip\<close> and \<open>str.split\<close> is the full
  set of code points for which \<open>str.isspace\<close> holds. Texts are sequences of Unicode scalar
  values, so that encoding them to UTF-8 does not fail. Timestamps are texts compared
  lexicographically, as SQLite compares \<open>TEXT\<close> values.
\<close>

type_synonym ustr = "nat list"

definition py :: "string \<Rightarrow> ustr" where
  "py s = map of_char s"

definition lower_cp :: "nat \<Rightarrow> nat" where
  "lower_cp c = (if 65 \<le> c \<and> c \<le> 90 then c + 32 else c)"

definition py_lower :: "ustr \<Rightarrow> ustr" where
  "py_lower s = map lower_cp s"

definition py_isspace :: "nat \<Rightarrow> bool" where
  "py_isspace c \<longleftrightarrow>
     (9 \<le> c \<and> c \<le> 13) \<or> (28 \<le> c \<and> c \<le> 32) \<or> c = 133 \<or> c = 160 \<or> c = 5760 \<or>
     (8192 \<le> c \<and> c \<le> 8202) \<or> c = 8232 \<or> c = 8233 \<or> c = 8239 \<or> c = 8287 \<or> c = 12288"

definition py_isdigit :: "nat \<Rightarrow> bool" where
  "py_isdigit c \<longleftrightarrow> 48 \<le> c \<and> c \<le> 57"

text \<open>\<open>s.startswith(p)\<close>\<close>

definition py_startswith :: "ustr \<Rightarrow> ustr \<Rightarrow> bool" where
  "py_startswith s p \<longleftrightarrow> take (length p) s = p"

text \<open>\<open>w in s\<close> on strings: \<open>w\<close> occurs in \<open>s\<close> as a contiguous substring.\<close>

fun py_in :: "ustr \<Rightarrow> ustr \<Rightarrow> bool" where
  "py_in w [] \<longleftrightarrow> w = []"
| "py_in w (c # s) \<longleftrightarrow> py_startswith (c # s) w \<or> py_in w s"


definition py_lstrip :: "ustr \<Rightarrow> ustr" where
  "py_lstrip s = dropWhile py_isspace s"

definition py_rstrip :: "ustr \<Rightarrow> ustr" where
  "py_rstrip s = rev (dropWhile py_isspace (rev s))"

definition py_strip :: "ustr \<Rightarrow> ustr" where
  "py_strip s = py_rstrip (py_lstrip s)"

text \<open>\<open>s.replace(old, '')\<close> for a one-character \<open>old\<close>\<close>

definition py_remove :: "nat \<Rightarrow> ustr \<Rightarrow> ustr" where
  "py_remove old s = filter (\<lambda>c. c \<noteq> old) s"

text \<open>
  \<open>s.split(sep)\<close> for a one-character separator: the pieces between the separators,
  empty pieces kept, so that the result is never empty.
\<close>

fun py_split :: "nat \<Rightarrow> ustr \<Rightarrow> ustr list" where
  "py_split sep [] = [[]]"
| "py_split sep (c # s) =
     (if c = sep then [] # py_split sep s
      else (case py_split sep s of piece # pieces \<Rightarrow> (c # piece) # pieces | [] \<Rightarrow> [[c]]))"

text \<open>\<open>any(p(x) for x in xs)\<close>\<close>

abbreviation py_any :: "('a \<Rightarrow> bool) \<Rightarrow> 'a list \<Rightarrow> bool" where
  "py_any \<equiv> list_ex"

text \<open>
  \<open>s.split(sep)\<close> for a separator of any length: the text is scanned from the left, and a
  piece ends wherever the separator starts.
\<close>

function split_str_from :: "ustr \<Rightarrow> ustr \<Rightarrow> ustr \<Rightarrow> ustr list" where
  "split_str_from sep piece s =
     (if s = [] then [piece]
      else if sep \<noteq> [] \<and> py_startswith s sep
      then piece # split_str_from sep [] (drop (length sep) s)
      else split_str_from sep (piece @ [hd s]) (tl s))"
  by pat_completeness auto
termination
  by (relation "measure (\<lambda>(sep, piece, s). length s)") auto

declare split_str_from.simps [simp del]

definition py_split_str :: "ustr \<Rightarrow> ustr \<Rightarrow> ustr list" where
  "py_split_str sep s = split_str_from sep [] s"

text \<open>\<open>s.split()\<close>: the maximal runs of characters that are not whitespace.\<close>

fun split_ws_from :: "ustr \<Rightarrow> ustr \<Rightarrow> ustr list" where
  "split_ws_from word [] = (if word = [] then [] else [word])"
| "split_ws_from word (c # s) =
     (if py_isspace c
      then (if word = [] then split_ws_from [] s else word # split_ws_from [] s)
      else split_ws_from (word @ [c]) s)"

definition py_split_ws :: "ustr \<Rightarrow> ustr list" where
  "py_split_ws s = split_ws_from [] s"

text \<open>\<open>sep.join(xs)\<close>\<close>

fun py_join :: "ustr \<Rightarrow> ustr list \<Rightarrow> ustr" where
  "py_join sep [] = []"
| "py_join sep [x] = x"
| "py_join sep (x # y # ys) = x @ sep @ py_join sep (y # ys)"

text \<open>\<open>str(n)\<close> for an integer: its decimal digits, after a minus sign when negative.\<close>

fun py_str_nat :: "nat \<Rightarrow> ustr" where
  "py_str_nat n = (if n < 10 then [48 + n] else py_str_nat (n div 10) @ [48 + n mod 10])"

declare py_str_nat.simps [simp del]

definition py_str :: "int \<Rightarrow> ustr" where
  "py_str i = (if i < 0 then 45 # py_str_nat (nat (- i)) else py_str_nat (nat i))"




section \<open>Exceptions\<close>

text \<open>
  The exceptions that the modelled code can meet: \<open>ValueError\<close> from \<open>int()\<close>,
  \<open>OverflowError\<close> from binding an integer outside 64 bits to a statement,
  \<open>OperationalError\<close> from SQLite (a statement that does not parse, a database that
  cannot be opened or written), and \<open>GenerationError\<close> for whatever the text
  generation pipeline raises. A request handler turns any of them into an HTTP error.
\<close>

datatype exn = ValueError | OverflowError | OperationalError | GenerationError


section \<open>The generation engine\<close>

text \<open>
  \<open>AIEngine\<close> holds the model, the tokenizer and the text generation pipeline, each
  \<open>None\<close> until it is loaded. The objects themselves are opaque; the pipeline is the
  function from the prompt it is given to the \<open>generated_text\<close> of its first result, or
  to the exception it raises. Sampling makes the pipeline differ from call to call, so the
  engine of a call holds the pipeline as it answers in that call.
\<close>

datatype hf_object = Loaded

record AIEngine =
  model :: "hf_object option"
  tokenizer :: "hf_object option"
  generator :: "(ustr \<Rightarrow> exn + ustr) option"

datatype category = Freelance | Online | Ecommerce | Investment

text \<open>The dictionary \<open>strategies\<close> of \<open>generate_fallback_strategy\<close>, lines 158 to 195.\<close>

fun strategies :: "category \<Rightarrow> ustr" where
  "strategies Freelance =
     py_join [10]
       [[],
        py ''1. Create profiles on Upwork, Fiverr, and Freelancer'',
        py ''2. Identify your core skills (writing, design, programming, etc.)'',
        py ''3. Start with competitive pricing to build reviews'',
        py ''4. Focus on quick turnaround projects initially'',
        py ''5. Gradually increase rates as you build reputation'',
        py ''6. Aim for $20-50/hour within first month'',
        py ''7. Scale by offering package deals and retainer clients'',
        []]"
| "strategies Online =
     py_join [10]
       [[],
        py ''1. Choose a profitable niche (health, finance, tech)'',
        py ''2. Create valuable content (blog, YouTube, social media)'',
        py ''3. Build an email list of potential customers'',
        py ''4. Develop digital products (courses, ebooks, tools)'',
        py ''5. Use affiliate marketing for passive income'',
        py ''6. Monetize through ads, sponsorships, and partnerships'',
        py ''7. Scale with automation and outsourcing'',
        []]"
| "strategies Ecommerce =
     py_join [10]
       [[],
        py ''1. Research trending products with low competition'',
        py ''2. Find reliable suppliers (Alibaba, local manufacturers)'',
        py ''3. Create an online store (Shopify, Amazon FBA)'',
        py ''4. Optimize product listings with SEO'',
        py ''5. Run targeted social media ads'',
        py ''6. Focus on customer service and reviews'',
        py ''7. Expand product line based on successful items'',
        []]"
| "strategies Investment =
     py_join [10]
       [[],
        py ''1. Start with index funds for stable growth'',
        py ''2. Learn about dividend stocks for passive income'',
        py ''3. Consider REITs for real estate exposure'',
        py ''4. Use dollar-cost averaging for consistent investing'',
        py ''5. Keep emergency fund of 3-6 months expenses'',
        py ''6. Diversify across asset classes and sectors'',
        py ''7. Reinvest profits to compound returns'',
        []]"

text \<open>Lines 197 to 208 of \<open>AIEngine.generate_fallback_strategy\<close>.\<close>

definition fallback_category :: "ustr \<Rightarrow> category" where
  "fallback_category prompt =
     (let prompt_lower = py_lower prompt in
      if py_any (\<lambda>word. py_in word prompt_lower) [py ''freelance'', py ''gig'', py ''service'']
      then Freelance
      else if py_any (\<lambda>word. py_in word prompt_lower) [py ''online'', py ''digital'', py ''internet'']
      then Online
      else if py_any (\<lambda>word. py_in word prompt_lower) [py ''sell'', py ''product'', py ''ecommerce'']
      then Ecommerce
      else if py_any (\<lambda>word. py_in word prompt_lower) [py ''invest'', py ''stock'', py ''crypto'']
      then Investment
      else Online)"

text \<open>
  \<open>AIEngine.generate_fallback_strategy\<close>, lines 156 to 234. The lines of the template after
  the base strategy, lines 217 to 232, do not depend on the prompt.
\<close>

definition fallback_closing :: "ustr list" where
  "fallback_closing =
     [[],
      py ''**Quick Start Actions:**'',
      py ''1. Set up necessary accounts today'',
      py ''2. Complete profile/setup within 24 hours'',
      py ''3. Launch first offering within 48 hours'',
      py ''4. Track daily progress and earnings'',
      py ''5. Optimize based on results weekly'',
      [],
      py ''**Expected Timeline:**'',
      py ''- Week 1: Setup and first attempts ($0-50)'',
      py ''- Week 2-4: Build momentum ($50-200/week)'',
      py ''- Month 2-3: Scale operations ($200-500/week)'',
      py ''- Month 4+: Full optimization ($500+/week)'',
      [],
      py ''Remember: Success requires consistent action and adaptation!'',
      []]"

definition generate_fallback_strategy :: "AIEngine \<Rightarrow> ustr \<Rightarrow> ustr" where
  "generate_fallback_strategy self prompt =
     (let category = fallback_category prompt;
          base_strategy = strategies category
      in py_join [10]
           ([[],
             py ''**Money-Making Strategy for: '' @ prompt @ py ''**'',
             [],
             base_strategy] @ fallback_closing))"

text \<open>The prompt that \<open>generate_money_strategy\<close> hands to the pipeline, lines 118 to 129.\<close>

definition enhanced_prompt :: "ustr \<Rightarrow> ustr" where
  "enhanced_prompt prompt =
     py_join [10]
       [[],
        py ''As an expert financial strategist and entrepreneur, provide a detailed, actionable money-making strategy for: '' @ [34] @ prompt @ [34],
        [],
        py ''Consider these factors:'',
        py ''1. Timeline and realistic expectations'',
        py ''2. Required skills and resources'',
        py ''3. Step-by-step action plan'',
        py ''4. Potential earnings and ROI'',
        py ''5. Risk assessment and mitigation'',
        py ''6. Scalability options'',
        [],
        py ''Strategy:'']"

text \<open>
  \<open>AIEngine.generate_money_strategy\<close>, lines 114 to 154: with a pipeline, the text after
  the last \<open>Strategy:\<close> of what it generates; without one, or when anything in the
  attempt raises, the fallback strategy.
\<close>

definition generate_money_strategy :: "AIEngine \<Rightarrow> ustr \<Rightarrow> ustr" where
  "generate_money_strategy self prompt =
     (let attempt =
        (case generator self of
           Some pipeline \<Rightarrow>
             (case pipeline (enhanced_prompt prompt) of
                Inl e \<Rightarrow> Inl e
              | Inr generated_text \<Rightarrow>
                  Inr (py_strip (last (py_split_str (py ''Strategy:'') generated_text))))
         | None \<Rightarrow> Inr (generate_fallback_strategy self prompt))
      in case attempt of
           Inr strategy \<Rightarrow> strategy
         | Inl e \<Rightarrow> generate_fallback_strategy self prompt)"

section \<open>The persistence store\<close>

text \<open>
  A row of the table \<open>conversations\<close> that \<open>init_database\<close> creates (lines 47 to 57):
  \<open>id\<close> is the \<open>INTEGER PRIMARY KEY AUTOINCREMENT\<close>, \<open>prompt_hash\<close> is \<open>UNIQUE\<close>,
  \<open>success_score\<close> and \<open>earnings\<close> default to zero. The value of \<open>earnings\<close> is only
  stored and read back, so it is a real number here.
\<close>

record conversation =
  c_id :: int
  c_prompt_hash :: ustr
  c_prompt :: ustr
  c_response :: ustr
  c_timestamp :: ustr
  c_success_score :: int
  c_earnings :: real

text \<open>
  The database file: the rows in the order of their ids, and the largest id that the
  table has ever held, which SQLite keeps for an \<open>AUTOINCREMENT\<close> key.
\<close>

record database =
  db_rows :: "conversation list"
  db_seq :: int


text \<open>
  What a call meets outside the program: the exception that \<open>sqlite3\<close> raises while the
  call uses the database (none when the database works), and the clock, read as
  \<open>datetime.datetime.now().isoformat()\<close> and as \<open>str(datetime.datetime.now().timestamp())\<close>.
\<close>

record moment =
  fault :: "exn option"
  now_iso :: ustr
  now_stamp :: ustr

definition in_int64 :: "int \<Rightarrow> bool" where
  "in_int64 n \<longleftrightarrow> - (2 ^ 63) \<le> n \<and> n < 2 ^ 63"

text \<open>
  \<open>get_prompt_hash\<close>, lines 259 to 261. The digest itself, from the text to the
  hexadecimal MD5 of its UTF-8 encoding, belongs to \<open>hashlib\<close> and is a parameter.
\<close>

definition get_prompt_hash :: "(ustr \<Rightarrow> ustr) \<Rightarrow> ustr \<Rightarrow> ustr" where
  "get_prompt_hash md5_hexdigest prompt = md5_hexdigest (py_lower prompt)"

text \<open>
  \<open>INSERT OR REPLACE INTO conversations (prompt_hash, prompt, response, timestamp)\<close>:
  the new row takes the id after the largest one ever used, a row with the same
  \<open>prompt_hash\<close> is deleted, and the columns that are not given take their defaults.
  When the ids are used up, SQLite refuses the insertion. The result is \<open>lastrowid\<close>
  with the new table.
\<close>

definition insert_or_replace :: "database \<Rightarrow> ustr \<Rightarrow> ustr \<Rightarrow> ustr \<Rightarrow> ustr \<Rightarrow> exn + (int \<times> database)" where
  "insert_or_replace db prompt_hash prompt response timestamp =
     (if \<not> in_int64 (db_seq db + 1) then Inl OperationalError
      else
        (let row = \<lparr>c_id = db_seq db + 1, c_prompt_hash = prompt_hash, c_prompt = prompt,
                    c_response = response, c_timestamp = timestamp,
                    c_success_score = 0, c_earnings = 0\<rparr>
         in Inr (db_seq db + 1,
                 \<lparr>db_rows = filter (\<lambda>old. c_prompt_hash old \<noteq> prompt_hash) (db_rows db) @ [row],
                  db_seq = db_seq db + 1\<rparr>)))"

text \<open>
  \<open>save_conversation\<close>, lines 263 to 286. The body of the \<open>try\<close> comes first; a failure
  before \<open>commit\<close> leaves the database as it was.
\<close>

definition save_conversation_try ::
  "(ustr \<Rightarrow> ustr) \<Rightarrow> moment \<Rightarrow> database \<Rightarrow> ustr \<Rightarrow> ustr \<Rightarrow> exn + (ustr \<times> database)" where
  "save_conversation_try md5_hexdigest env db prompt response =
     (case fault env of
        Some e \<Rightarrow> Inl e
      | None \<Rightarrow>
          (let prompt_hash = get_prompt_hash md5_hexdigest prompt;
               timestamp = now_iso env
           in case insert_or_replace db prompt_hash prompt response timestamp of
                Inl e \<Rightarrow> Inl e
              | Inr (strategy_id, db') \<Rightarrow> Inr (py_str strategy_id, db')))"

definition save_conversation ::
  "(ustr \<Rightarrow> ustr) \<Rightarrow> moment \<Rightarrow> database \<Rightarrow> ustr \<Rightarrow> ustr \<Rightarrow> exn + (ustr \<times> database)" where
  "save_conversation md5_hexdigest env db prompt response =
     (case save_conversation_try md5_hexdigest env db prompt response of
        Inr saved \<Rightarrow> Inr saved
      | Inl e \<Rightarrow> Inr (py ''temp_'' @ now_stamp env, db))"

subsection \<open>Similarity lookup\<close>

text \<open>
  The operator \<open>LIKE\<close> of SQLite: in the pattern a percent sign stands for any text and an
  underscore for any one character; letters of ASCII match in either case.
\<close>

fun sql_like :: "ustr \<Rightarrow> ustr \<Rightarrow> bool" where
  "sql_like [] s \<longleftrightarrow> s = []"
| "sql_like (p # ps) [] \<longleftrightarrow> p = 37 \<and> sql_like ps []"
| "sql_like (p # ps) (c # s) \<longleftrightarrow>
     (if p = 37 then sql_like ps (c # s) \<or> sql_like (p # ps) s
      else (p = 95 \<or> lower_cp p = lower_cp c) \<and> sql_like ps s)"

text \<open>\<open>LOWER\<close> of SQLite maps the letters of ASCII only, as \<open>py_lower\<close> does here.\<close>

definition sql_lower :: "ustr \<Rightarrow> ustr" where
  "sql_lower s = map lower_cp s"

text \<open>\<open>ORDER BY timestamp DESC\<close>; among equal timestamps the later row comes first.\<close>

fun insert_desc :: "conversation \<Rightarrow> conversation list \<Rightarrow> conversation list" where
  "insert_desc row [] = [row]"
| "insert_desc row (x # xs) =
     (if c_timestamp x < c_timestamp row then row # x # xs else x # insert_desc row xs)"

definition order_by_timestamp_desc :: "conversation list \<Rightarrow> conversation list" where
  "order_by_timestamp_desc rows = foldr insert_desc rows []"

text \<open>The dictionaries that \<open>get_similar_strategies\<close> returns.\<close>

record similar_strategy =
  s_id :: int
  s_prompt :: ustr
  s_response :: ustr
  s_timestamp :: ustr
  s_success_score :: int

definition similar_of_row :: "conversation \<Rightarrow> similar_strategy" where
  "similar_of_row row =
     \<lparr>s_id = c_id row, s_prompt = c_prompt row, s_response = c_response row,
      s_timestamp = c_timestamp row, s_success_score = c_success_score row\<rparr>"

text \<open>The text of the statement, with the words pasted into it (lines 296 to 303).\<close>

definition query_conditions :: "ustr list \<Rightarrow> ustr" where
  "query_conditions words =
     py_join (py '' OR '')
       (map (\<lambda>word. py ''LOWER(prompt) LIKE '' @ [39] @ py ''%'' @ word @ py ''%'' @ [39]) words)"

definition similar_query :: "ustr list \<Rightarrow> ustr" where
  "similar_query words =
     py_join [10]
       [[],
        py ''            SELECT * FROM conversations '',
        py ''            WHERE '' @ query_conditions words,
        py ''            ORDER BY timestamp DESC '',
        py ''            LIMIT 5'',
        py ''        '']"

text \<open>
  The statement as SQLite runs it. Without a word the \<open>WHERE\<close> clause is empty and the
  statement does not parse. When no word holds a quote or a NUL character, every word
  stays inside its string literal and the statement is the one that was meant. Otherwise
  a word ends its literal and the rest of it is read as SQL; what SQLite answers then is
  left to the parameter \<open>injected\<close>, which receives the text of the statement. Its rows
  are taken to have the columns of the table.
\<close>

type_synonym sqlite_answer = "ustr \<Rightarrow> database \<Rightarrow> exn + similar_strategy list"

definition stays_in_literal :: "ustr \<Rightarrow> bool" where
  "stays_in_literal word \<longleftrightarrow> 39 \<notin> set word \<and> 0 \<notin> set word"

definition select_similar :: "sqlite_answer \<Rightarrow> database \<Rightarrow> ustr list \<Rightarrow> exn + similar_strategy list" where
  "select_similar injected db words =
     (if words = [] then Inl OperationalError
      else if list_all stays_in_literal words
      then Inr (map similar_of_row
             (take 5 (order_by_timestamp_desc
                (filter (\<lambda>row. list_ex (\<lambda>word. sql_like (py ''%'' @ word @ py ''%'')
                                                 (sql_lower (c_prompt row))) words)
                   (db_rows db)))))
      else injected (similar_query words) db)"

text \<open>\<open>get_similar_strategies\<close>, lines 288 to 321.\<close>

definition get_similar_strategies_try ::
  "sqlite_answer \<Rightarrow> moment \<Rightarrow> database \<Rightarrow> ustr \<Rightarrow> exn + similar_strategy list" where
  "get_similar_strategies_try injected env db prompt =
     (case fault env of
        Some e \<Rightarrow> Inl e
      | None \<Rightarrow>
          (let words = py_split_ws (py_lower prompt)
           in select_similar injected db (take 5 words)))"

definition get_similar_strategies ::
  "sqlite_answer \<Rightarrow> moment \<Rightarrow> database \<Rightarrow> ustr \<Rightarrow> exn + similar_strategy list" where
  "get_similar_strategies injected env db prompt =
     (case get_similar_strategies_try injected env db prompt of
        Inr results \<Rightarrow> Inr results
      | Inl e \<Rightarrow> Inr [])"

subsection \<open>Feedback\<close>





section \<open>The post-processor\<close>





subsection \<open>Earnings estimate\<close>

text \<open>
  The pattern of \<open>estimate_earnings\<close> is
  \<^verbatim>\<open>\$(\d+(?:,\d{3})*(?:\.\d{2})?)\<close>.
  Every part after \<^verbatim>\<open>\d+\<close> may match the empty string, so the greedy match never
  backtracks: all the digits, then as many groups of a comma and three digits as there
  are, then a dot and two digits if they follow.
\<close>

fun take_thousands :: "ustr \<Rightarrow> ustr \<times> ustr" where
  "take_thousands (c # d1 # d2 # d3 # rest) =
     (if c = 44 \<and> py_isdigit d1 \<and> py_isdigit d2 \<and> py_isdigit d3
      then (let (groups, rest') = take_thousands rest in (c # d1 # d2 # d3 # groups, rest'))
      else ([], c # d1 # d2 # d3 # rest))"
| "take_thousands s = ([], s)"

fun take_cents :: "ustr \<Rightarrow> ustr \<times> ustr" where
  "take_cents (c # d1 # d2 # rest) =
     (if c = 46 \<and> py_isdigit d1 \<and> py_isdigit d2
      then ([c, d1, d2], rest)
      else ([], c # d1 # d2 # rest))"
| "take_cents s = ([], s)"

text \<open>
  A match of the pattern at the head of the text: the captured group and the text left
  after the match, or \<open>None\<close> when the pattern does not match there.
\<close>

definition match_amount :: "ustr \<Rightarrow> (ustr \<times> ustr) option" where
  "match_amount s =
     (case s of
        [] \<Rightarrow> None
      | c # t \<Rightarrow>
          if c = 36 \<and> takeWhile py_isdigit t \<noteq> []
          then (let (groups, r2) = take_thousands (dropWhile py_isdigit t);
                    (cents, r3) = take_cents r2
                in Some (takeWhile py_isdigit t @ groups @ cents, r3))
          else None)"

lemma take_thousands_length: "length (snd (take_thousands s)) \<le> length s"
  by (induction s rule: take_thousands.induct) (auto split: prod.splits)

lemma take_cents_length: "length (snd (take_cents s)) \<le> length s"
  by (induction s rule: take_cents.induct) auto

lemma match_amount_shorter:
  assumes "match_amount s = Some (m, rest)"
  shows "length rest < length s"
proof (cases s)
  case Nil
  with assms show ?thesis by (simp add: match_amount_def)
next
  case (Cons c t)
  obtain groups r2 where g: "take_thousands (dropWhile py_isdigit t) = (groups, r2)"
    by (cases "take_thousands (dropWhile py_isdigit t)")
  obtain cents r3 where c: "take_cents r2 = (cents, r3)"
    by (cases "take_cents r2")
  from assms Cons g c have "rest = r3"
    by (auto simp: match_amount_def split: if_splits)
  moreover have "length r3 \<le> length r2"
    using take_cents_length [of r2] c by simp
  moreover have "length r2 \<le> length (dropWhile py_isdigit t)"
    using take_thousands_length [of "dropWhile py_isdigit t"] g by simp
  moreover have "length (dropWhile py_isdigit t) \<le> length t"
    by (rule length_dropWhile_le)
  ultimately show ?thesis using Cons by simp
qed

text \<open>\<open>re.findall\<close> with that pattern: the captured groups of the matches, left to right.\<close>

function re_findall_amounts :: "ustr \<Rightarrow> ustr list" where
  "re_findall_amounts [] = []"
| "re_findall_amounts (c # t) =
     (case match_amount (c # t) of
        Some (m, rest) \<Rightarrow> m # re_findall_amounts rest
      | None \<Rightarrow> re_findall_amounts t)"
  by pat_completeness auto
termination
  by (relation "measure length") (auto dest: match_amount_shorter)

text \<open>\<open>estimate_earnings\<close>, lines 338 to 358.\<close>

definition estimate_earnings :: "ustr \<Rightarrow> ustr \<Rightarrow> ustr" where
  "estimate_earnings prompt strategy =
     (let prompt_lower = py_lower prompt;
          amounts = re_findall_amounts prompt
      in case amounts of
           amount # _ \<Rightarrow> py ''Target: $'' @ py_remove 44 amount @ py '' (as specified)''
         | [] \<Rightarrow>
             if py_any (\<lambda>word. py_in word prompt_lower) [py ''day'', py ''today'', py ''quickly'']
             then py ''$50-200 (short-term)''
             else if py_any (\<lambda>word. py_in word prompt_lower) [py ''week'', py ''weekly'']
             then py ''$200-1000 (weekly potential)''
             else if py_any (\<lambda>word. py_in word prompt_lower) [py ''month'', py ''monthly'']
             then py ''$1000-5000 (monthly potential)''
             else py ''$100-500 (typical range)'')"


section \<open>The request orchestrator\<close>






section \<open>The specification's notions\<close>

text \<open>
  The definitions of this section do not come from the program. They word what the
  specification says, so that the theorems below can compare the program with it.
\<close>



















definition primary_path_succeeded :: "AIEngine \<Rightarrow> ustr \<Rightarrow> bool" where
  "primary_path_succeeded ai_engine prompt \<longleftrightarrow>
     (case generator ai_engine of
        None \<Rightarrow> False
      | Some pipeline \<Rightarrow>
          (case pipeline (enhanced_prompt prompt) of Inr generated_text \<Rightarrow> True | Inl e \<Rightarrow> False))"



text \<open>
  Values for the examples: a database with one stored exchange, a moment at which the
  database works and one at which it does not, an engine whose model is loaded and whose
  pipeline raises, an engine without a model, a request, a digest that returns its text
  and an answer of SQLite to statements that were not meant.
\<close>

definition stored_exchange :: conversation where
  "stored_exchange =
     \<lparr>c_id = 1, c_prompt_hash = py ''5f1d'', c_prompt = py ''Passive income ideas'',
      c_response = py ''Start a blog'', c_timestamp = py ''2024-01-01T10:00:00'',
      c_success_score = 0, c_earnings = 0\<rparr>"

definition one_exchange :: database where
  "one_exchange = \<lparr>db_rows = [stored_exchange], db_seq = 1\<rparr>"

definition working :: moment where
  "working = \<lparr>fault = None, now_iso = py ''2024-01-02T10:00:00'', now_stamp = py ''1704189600.5''\<rparr>"



definition raising_engine :: AIEngine where
  "raising_engine =
     \<lparr>model = Some Loaded, tokenizer = Some Loaded, generator = Some (\<lambda>text. Inl GenerationError)\<rparr>"

definition fallback_engine :: AIEngine where
  "fallback_engine = \<lparr>model = None, tokenizer = None, generator = None\<rparr>"



definition no_injection :: sqlite_answer where
  "no_injection statement db = Inl OperationalError"

section \<open>Facts about the text operations\<close>

lemma py_split_line: "sep \<notin> set x \<Longrightarrow> py_split sep (x @ sep # rest) = x # py_split sep rest"
  by (induction x) auto

lemma py_split_last: "sep \<notin> set x \<Longrightarrow> py_split sep x = [x]"
  by (induction x) auto




lemma py_join_Cons: "ys \<noteq> [] \<Longrightarrow> py_join sep (x # ys) = x @ sep @ py_join sep ys"
  by (cases ys) simp_all

lemma py_split_join:
  "lines \<noteq> [] \<Longrightarrow> list_all (\<lambda>line. sep \<notin> set line) lines \<Longrightarrow>
   py_split sep (py_join [sep] lines) = lines"
proof (induction "[sep]" lines rule: py_join.induct)
  case 1
  then show ?case by simp
next
  case (2 x)
  then show ?case by (simp add: py_split_last)
next
  case (3 x y zs)
  then show ?case by (simp add: py_split_line)
qed

section \<open>The store keeps one row for each fingerprint\<close>





lemma save_conversation_cases:
  "save_conversation md5 env db prompt response =
     (case save_conversation_try md5 env db prompt response of
        Inr saved \<Rightarrow> Inr saved
      | Inl e \<Rightarrow> Inr (py ''temp_'' @ now_stamp env, db))"
  by (simp add: save_conversation_def)










subsection \<open>The helpers of a request always return\<close>






section \<open>Feedback for an unknown strategy\<close>






section \<open>The fallback strategy depends on the prompt only\<close>

lemma fallback_shape:
  "generate_fallback_strategy self prompt =
   [10] @ py ''**Money-Making Strategy for: '' @ prompt @ py ''**'' @ [10, 10] @
   strategies (fallback_category prompt) @ [10] @ py_join [10] fallback_closing"
proof -
  have "fallback_closing \<noteq> []" by (simp add: fallback_closing_def)
  then show ?thesis
    by (simp add: generate_fallback_strategy_def Let_def py_join_Cons)
qed

lemma seven_steps:
  "map (take 3) (py_split 10 (strategies category)) =
   [[], py ''1. '', py ''2. '', py ''3. '', py ''4. '', py ''5. '', py ''6. '', py ''7. '', []]"
  by (cases category) (simp_all add: py_split_join py_def)

lemma fallback_when_primary_fails:
  "\<not> primary_path_succeeded self prompt \<Longrightarrow>
   generate_money_strategy self prompt = generate_fallback_strategy self prompt"
  by (auto simp: primary_path_succeeded_def generate_money_strategy_def
      split: option.splits sum.splits)

text \<open>
  Claim C3. The fallback generator is a function of the prompt text alone: it reads
  neither the engine nor a clock nor the database, so two evaluations on the same prompt,
  in whatever state the engine is, give the same text. That text is the header with the
  prompt, the body of the category of the prompt, and closing lines that are the same for
  every prompt; the body of each category has seven lines, numbered 1 to 7. Whenever the
  primary path does not succeed, the strategy of the request is this text.
\<close>

theorem fallback_strategy_deterministic:
  "generate_fallback_strategy self1 prompt = generate_fallback_strategy self2 prompt \<and>
   generate_fallback_strategy self1 prompt =
     [10] @ py ''**Money-Making Strategy for: '' @ prompt @ py ''**'' @ [10, 10] @
     strategies (fallback_category prompt) @ [10] @ py_join [10] fallback_closing \<and>
   map (take 3) (py_split 10 (strategies (fallback_category prompt))) =
     [[], py ''1. '', py ''2. '', py ''3. '', py ''4. '', py ''5. '', py ''6. '', py ''7. '', []] \<and>
   (\<not> primary_path_succeeded self1 prompt \<longrightarrow>
      generate_money_strategy self1 prompt = generate_fallback_strategy self2 prompt)"
  using fallback_shape [of self1 prompt] fallback_shape [of self2 prompt]
    seven_steps [of "fallback_category prompt"] fallback_when_primary_fails [of self1 prompt]
  by simp

theorem fallback_strategy_deterministic_witness:
  "\<not> primary_path_succeeded raising_engine (py ''earn money'') \<and>
   generate_money_strategy raising_engine (py ''earn money'')
     = generate_fallback_strategy fallback_engine (py ''earn money'') \<and>
   generate_fallback_strategy raising_engine (py ''earn money'')
     = generate_fallback_strategy fallback_engine (py ''earn money'')"
proof -
  have "\<not> primary_path_succeeded raising_engine (py ''earn money'')"
    by (simp add: primary_path_succeeded_def raising_engine_def)
  with fallback_strategy_deterministic [of raising_engine "py ''earn money''" fallback_engine]
  show ?thesis by blast
qed

section \<open>The classifier is a priority table\<close>







section \<open>The earnings estimate\<close>











section \<open>The extracted actions\<close>

















section \<open>The confidence of a reply\<close>









section \<open>The similarity lookup\<close>

text \<open>
  Claim C8 at the prompt \<open>passive_income\<close>, with one stored exchange whose prompt is
  \<open>Passive income ideas\<close>. The only word of the prompt is pasted into the pattern of
  \<open>LIKE\<close>, where its underscore stands for any character, so the lookup returns the
  stored exchange, although its prompt does not contain the word. On a prompt of
  whitespace the statement has no condition, SQLite refuses it, and the lookup returns the
  empty list.
\<close>

theorem similar_lookup_wildcard:
  "py_split_ws (py_lower (py ''passive_income'')) = [py ''passive_income''] \<and>
   get_similar_strategies no_injection working one_exchange (py ''passive_income'')
     = Inr [similar_of_row stored_exchange] \<and>
   s_prompt (similar_of_row stored_exchange) = py ''Passive income ideas'' \<and>
   \<not> py_in (py ''passive_income'') (py_lower (py ''Passive income ideas'')) \<and>
   get_similar_strategies no_injection working one_exchange (py ''   '') = Inr []"
proof -
  have a: "py_split_ws (py_lower (py ''passive_income'')) = [py ''passive_income'']"
    by (simp add: py_split_ws_def py_lower_def lower_cp_def py_isspace_def py_def)
  have b: "get_similar_strategies no_injection working one_exchange (py ''passive_income'')
     = Inr [similar_of_row stored_exchange]"
    by (simp add: get_similar_strategies_def get_similar_strategies_try_def select_similar_def
        working_def one_exchange_def stored_exchange_def py_split_ws_def py_lower_def lower_cp_def
        py_isspace_def stays_in_literal_def order_by_timestamp_desc_def sql_lower_def py_def)
  have c: "s_prompt (similar_of_row stored_exchange) = py ''Passive income ideas''"
    by (simp add: similar_of_row_def stored_exchange_def)
  have d: "\<not> py_in (py ''passive_income'') (py_lower (py ''Passive income ideas''))"
    by (simp add: py_lower_def lower_cp_def py_startswith_def py_def)
  have e: "get_similar_strategies no_injection working one_exchange (py ''   '') = Inr []"
    by (simp add: get_similar_strategies_def get_similar_strategies_try_def select_similar_def
        working_def py_split_ws_def py_lower_def lower_cp_def py_isspace_def py_def)
  from a b c d e show ?thesis by blast
qed

section \<open>Saving never fails the request\<close>



text \<open>
  Claim C10. \<open>estimate_earnings\<close> never reads its strategy argument: two calls with the
  same prompt and any two strategy texts return the same string.
\<close>

theorem estimate_earnings_ignores_strategy:
  "estimate_earnings prompt s1 = estimate_earnings prompt s2"
  by (simp add: estimate_earnings_def)

theorem estimate_earnings_ignores_strategy_witness:
  "estimate_earnings (py ''earn $5'') (py ''plan A'') = estimate_earnings (py ''earn $5'') []"
  by (rule estimate_earnings_ignores_strategy)

end
